theory Spec2Isabelle
  imports Main "HOL-Library.Product_Lexorder"
begin

section \<open>The task API of backend/app.py\<close>

text \<open>
  The program is a Flask application with one SQLAlchemy model, \<open>Task\<close>, and one handler
  per route. Each handler is embedded as a function from the request, the environment of
  the request (what the storage engine and the clock answer) and the database to an outcome
  and the database afterwards. An outcome is \<open>Inr (body, status)\<close>, the pair the handler
  returns, or \<open>Inl ex\<close>, an exception that leaves the handler.
\<close>

subsection \<open>Python values and exceptions\<close>

text \<open>
  What \<open>request.get_json()\<close> yields: \<open>None\<close> (as \<open>JNull\<close>) or a decoded JSON
  value. Numbers are integers here; a dictionary is an association list read with
  \<open>map_of\<close>.
\<close>

datatype json =
    JNull
  | JBool bool
  | JNum int
  | JStr string
  | JArr "json list"
  | JObj "(string \<times> json) list"

text \<open>
  The exceptions the handlers can meet. An \<open>HTTPException\<close> carries its status code and
  its \<open>str()\<close>; it derives from \<open>Exception\<close>, as the others do.
\<close>

datatype exn =
    HTTPException nat string
  | TypeError string
  | AttributeError string
  | KeyError string
  | SQLAlchemyError string

definition quoted :: "string \<Rightarrow> string" where
  "quoted s = [CHR 0x27] @ s @ [CHR 0x27]"

fun str_exn :: "exn \<Rightarrow> string" where
  "str_exn (HTTPException c s) = s"
| "str_exn (TypeError s) = s"
| "str_exn (AttributeError s) = s"
| "str_exn (KeyError k) = quoted k"
| "str_exn (SQLAlchemyError s) = s"

definition NotFound :: exn where
  "NotFound = HTTPException 404
     ''404 Not Found: The requested URL was not found on the server. If you entered the URL manually please check your spelling and try again.''"

fun type_name :: "json \<Rightarrow> string" where
  "type_name JNull = ''NoneType''"
| "type_name (JBool b) = ''bool''"
| "type_name (JNum n) = ''int''"
| "type_name (JStr s) = ''str''"
| "type_name (JArr xs) = ''list''"
| "type_name (JObj kv) = ''dict''"

text \<open>\<open>bool(data)\<close>, the test behind \<open>not data\<close>.\<close>

fun truthy :: "json \<Rightarrow> bool" where
  "truthy JNull = False"
| "truthy (JBool b) = b"
| "truthy (JNum n) = (n \<noteq> 0)"
| "truthy (JStr s) = (s \<noteq> [])"
| "truthy (JArr xs) = (xs \<noteq> [])"
| "truthy (JObj kv) = (kv \<noteq> [])"

fun startswith :: "string \<Rightarrow> string \<Rightarrow> bool" where
  "startswith s [] = True"
| "startswith [] (p # ps) = False"
| "startswith (c # s) (p # ps) = (c = p \<and> startswith s ps)"

fun str_contains :: "string \<Rightarrow> string \<Rightarrow> bool" where
  "str_contains sub [] = (sub = [])"
| "str_contains sub (c # s) = (startswith (c # s) sub \<or> str_contains sub s)"

text \<open>
  \<open>key in data\<close>: key membership in a dictionary, element membership in a list, the
  substring test in a string, and a \<open>TypeError\<close> on \<open>None\<close>, a boolean or a number.
\<close>

fun py_in :: "string \<Rightarrow> json \<Rightarrow> exn + bool" where
  "py_in k (JObj kv) = Inr (map_of kv k \<noteq> None)"
| "py_in k (JArr xs) = Inr (JStr k \<in> set xs)"
| "py_in k (JStr s) = Inr (str_contains k s)"
| "py_in k d = Inl (TypeError (''argument of type '' @ quoted (type_name d) @ '' is not iterable''))"

text \<open>\<open>data[key]\<close> with a string key.\<close>

fun subscript :: "json \<Rightarrow> string \<Rightarrow> exn + json" where
  "subscript (JObj kv) k = (case map_of kv k of Some v \<Rightarrow> Inr v | None \<Rightarrow> Inl (KeyError k))"
| "subscript (JArr xs) k = Inl (TypeError ''list indices must be integers or slices, not str'')"
| "subscript (JStr s) k = Inl (TypeError ''string indices must be integers'')"
| "subscript d k = Inl (TypeError (quoted (type_name d) @ '' object is not subscriptable''))"

text \<open>\<open>data.get(key, default)\<close>.\<close>

fun dict_get :: "json \<Rightarrow> string \<Rightarrow> json \<Rightarrow> exn + json" where
  "dict_get (JObj kv) k dflt = Inr (case map_of kv k of Some v \<Rightarrow> v | None \<Rightarrow> dflt)"
| "dict_get d k dflt =
     Inl (AttributeError (quoted (type_name d) @ '' object has no attribute '' @ quoted ''get''))"

subsection \<open>Timestamps\<close>

text \<open>
  A naive \<open>datetime\<close>: its seven fields, compared lexicographically as Python compares
  them.
\<close>

record datetime =
  year :: nat
  month :: nat
  day :: nat
  hour :: nat
  minute :: nat
  second :: nat
  microsecond :: nat

definition dt_key :: "datetime \<Rightarrow> nat \<times> nat \<times> nat \<times> nat \<times> nat \<times> nat \<times> nat" where
  "dt_key t = (year t, month t, day t, hour t, minute t, second t, microsecond t)"

definition dt_le :: "datetime \<Rightarrow> datetime \<Rightarrow> bool" where
  "dt_le a b = (dt_key a \<le> dt_key b)"

text \<open>The timestamp cut to the second: \<open>t.replace(microsecond=0)\<close>.\<close>

definition to_second :: "datetime \<Rightarrow> datetime" where
  "to_second t = t\<lparr>microsecond := 0\<rparr>"

fun digits :: "nat \<Rightarrow> string" where
  "digits n = (if n < 10 then [''0123456789'' ! n]
               else digits (n div 10) @ [''0123456789'' ! (n mod 10)])"

definition zfill :: "nat \<Rightarrow> nat \<Rightarrow> string" where
  "zfill w n = replicate (w - length (digits n)) (CHR ''0'') @ digits n"

definition isoformat :: "datetime \<Rightarrow> string" where
  "isoformat t =
     zfill 4 (year t) @ ''-'' @ zfill 2 (month t) @ ''-'' @ zfill 2 (day t) @ ''T'' @
     zfill 2 (hour t) @ '':'' @ zfill 2 (minute t) @ '':'' @ zfill 2 (second t) @
     (if microsecond t = 0 then [] else ''.'' @ zfill 6 (microsecond t))"

subsection \<open>The model class Task\<close>

text \<open>
  A row of the table \<open>tasks\<close>. The three text columns hold the Python value the handler
  assigned; \<open>JNull\<close> is \<open>None\<close>.
\<close>

record task =
  task_id :: int
  title :: json
  description :: json
  status :: json
  created_at :: datetime
  updated_at :: datetime

definition to_dict :: "task \<Rightarrow> json" where
  "to_dict t = JObj
     [(''id'', JNum (task_id t)),
      (''title'', title t),
      (''description'', description t),
      (''status'', status t),
      (''created_at'', JStr (isoformat (created_at t))),
      (''updated_at'', JStr (isoformat (updated_at t)))]"

subsection \<open>The database and db.session\<close>

text \<open>
  \<open>db.session\<close> follows the one object the handler's variable \<open>task\<close> refers to:
  a new object that was added (\<open>Pending\<close>, with the three constructor arguments), a loaded
  object with its current attribute values (\<open>Persistent\<close>), or a loaded object marked for
  deletion (\<open>Deleted\<close>). Nothing reaches the table before the commit.
\<close>

datatype session =
    Empty
  | Pending json json json
  | Persistent task
  | Deleted task

record db =
  table :: "task list"
  seq :: int
  session :: session

text \<open>
  What the world answers while one request is served: the exception, if any, that a query
  raises, the exception, if any, that the commit raises, and the reading of the clock at
  the k-th call of \<open>datetime.utcnow()\<close>. A reload of the attributes of a committed object
  is taken to succeed.
\<close>

record env =
  query_error :: "string option"
  commit_error :: "string option"
  utcnow :: "nat \<Rightarrow> datetime"

record request =
  get_json :: "exn + json"

type_synonym response = "json \<times> nat"

type_synonym outcome = "exn + response"

definition init_db :: db where
  "init_db = \<lparr>table = [], seq = 1, session = Empty\<rparr>"

definition find_task :: "int \<Rightarrow> db \<Rightarrow> task option" where
  "find_task i d = find (\<lambda>t. task_id t = i) (table d)"

text \<open>
  \<open>Task.query.get_or_404(task_id)\<close>: the row becomes the session's object;
  \<open>abort(404)\<close> raises \<open>NotFound\<close> when there is none.
\<close>

definition get_or_404 :: "env \<Rightarrow> int \<Rightarrow> db \<Rightarrow> (exn + task) \<times> db" where
  "get_or_404 e i d =
     (case query_error e of
        Some m \<Rightarrow> (Inl (SQLAlchemyError m), d)
      | None \<Rightarrow>
          (case find_task i d of
             None \<Rightarrow> (Inl NotFound, d)
           | Some t \<Rightarrow> (Inr t, d\<lparr>session := Persistent t\<rparr>)))"

text \<open>\<open>db.session.add(Task(title=..., description=..., status=...))\<close>.\<close>

definition session_add :: "json \<Rightarrow> json \<Rightarrow> json \<Rightarrow> db \<Rightarrow> db" where
  "session_add ti de st d = d\<lparr>session := Pending ti de st\<rparr>"

datatype column = Title | Description | Status

fun key_of :: "column \<Rightarrow> string" where
  "key_of Title = ''title''"
| "key_of Description = ''description''"
| "key_of Status = ''status''"

fun set_column :: "column \<Rightarrow> json \<Rightarrow> task \<Rightarrow> task" where
  "set_column Title v t = t\<lparr>title := v\<rparr>"
| "set_column Description v t = t\<lparr>description := v\<rparr>"
| "set_column Status v t = t\<lparr>status := v\<rparr>"

text \<open>An attribute assignment \<open>task.title = v\<close> on the session's object.\<close>

definition setattr :: "column \<Rightarrow> json \<Rightarrow> db \<Rightarrow> db" where
  "setattr c v d =
     (case session d of
        Persistent t \<Rightarrow> d\<lparr>session := Persistent (set_column c v t)\<rparr>
      | _ \<Rightarrow> d)"

text \<open>\<open>db.session.delete(task)\<close>.\<close>

definition session_delete :: "db \<Rightarrow> db" where
  "session_delete d =
     (case session d of
        Persistent t \<Rightarrow> d\<lparr>session := Deleted t\<rparr>
      | _ \<Rightarrow> d)"

definition not_null_violation :: string where
  "not_null_violation = ''IntegrityError: null value in column title violates not-null constraint''"

definition stale_data :: string where
  "stale_data = ''StaleDataError: UPDATE statement on table tasks expected to update 1 row(s); 0 were matched.''"

text \<open>
  \<open>db.session.commit()\<close>. The flush writes the session's object:
  \<^item> a pending object is inserted with the next value of the id sequence; the column
    defaults call \<open>datetime.utcnow\<close> once for \<open>created_at\<close> and once more for
    \<open>updated_at\<close> (lines 34-35);
  \<^item> a persistent object whose attributes differ from its row is updated, and
    \<open>onupdate\<close> sets \<open>updated_at\<close> (line 35); one whose attributes equal its row
    sends no UPDATE, so \<open>onupdate\<close> does not run;
  \<^item> a deleted object's row is removed.
  The column \<open>title\<close> is \<open>nullable=False\<close> (line 31). When the commit raises, the
  table is as before and the session still holds its object.
\<close>

definition session_commit :: "env \<Rightarrow> db \<Rightarrow> (exn + unit) \<times> db" where
  "session_commit e d =
     (case commit_error e of
        Some m \<Rightarrow> (Inl (SQLAlchemyError m), d)
      | None \<Rightarrow>
          (case session d of
             Empty \<Rightarrow> (Inr (), d)
           | Pending ti de st \<Rightarrow>
               if ti = JNull then (Inl (SQLAlchemyError not_null_violation), d)
               else
                 let row = \<lparr>task_id = seq d, title = ti, description = de, status = st,
                            created_at = utcnow e 0, updated_at = utcnow e 1\<rparr>
                 in (Inr (), d\<lparr>table := table d @ [row], seq := seq d + 1,
                               session := Persistent row\<rparr>)
           | Persistent t \<Rightarrow>
               (case find_task (task_id t) d of
                  None \<Rightarrow> (Inl (SQLAlchemyError stale_data), d)
                | Some old \<Rightarrow>
                    if t = old then (Inr (), d)
                    else if title t = JNull then (Inl (SQLAlchemyError not_null_violation), d)
                    else
                      let row = t\<lparr>updated_at := utcnow e 0\<rparr>
                      in (Inr (), d\<lparr>table := map (\<lambda>r. if task_id r = task_id t then row else r)
                                                 (table d),
                                    session := Persistent row\<rparr>))
           | Deleted t \<Rightarrow>
               (Inr (), d\<lparr>table := filter (\<lambda>r. task_id r \<noteq> task_id t) (table d),
                          session := Empty\<rparr>)))"

text \<open>\<open>db.session.rollback()\<close>: the session forgets its object.\<close>

definition session_rollback :: "db \<Rightarrow> db" where
  "session_rollback d = d\<lparr>session := Empty\<rparr>"

text \<open>
  Reading the attributes of \<open>task\<close> after the commit, as \<open>task.to_dict()\<close> does.
\<close>

definition session_task :: "db \<Rightarrow> exn + task" where
  "session_task d =
     (case session d of
        Persistent t \<Rightarrow> Inr t
      | _ \<Rightarrow> Inl (SQLAlchemyError ''DetachedInstanceError''))"

definition error_body :: "string \<Rightarrow> json" where
  "error_body m = JObj [(''error'', JStr m)]"

subsection \<open>The handlers\<close>

text \<open>\<open>health_check\<close>, lines 48-57.\<close>

definition health_check :: "env \<Rightarrow> db \<Rightarrow> outcome \<times> db" where
  "health_check e d =
     (case query_error e of
        None \<Rightarrow>
          (Inr (JObj [(''status'', JStr ''healthy''),
                      (''timestamp'', JStr (isoformat (utcnow e 0)))], 200), d)
      | Some m \<Rightarrow>
          (Inr (JObj [(''status'', JStr ''unhealthy''), (''error'', JStr m)], 503), d))"

text \<open>\<open>readiness_check\<close>, lines 59-62.\<close>

definition readiness_check :: "db \<Rightarrow> outcome \<times> db" where
  "readiness_check d = (Inr (JObj [(''status'', JStr ''ready'')], 200), d)"

text \<open>\<open>get_tasks\<close>, lines 64-72.\<close>

definition get_tasks :: "env \<Rightarrow> db \<Rightarrow> outcome \<times> db" where
  "get_tasks e d =
     (case query_error e of
        None \<Rightarrow> (Inr (JArr (map to_dict (table d)), 200), d)
      | Some m \<Rightarrow> (Inr (error_body m, 500), d))"

text \<open>\<open>get_task\<close>, lines 74-78: no \<open>try\<close> around \<open>get_or_404\<close>.\<close>

definition get_task :: "env \<Rightarrow> int \<Rightarrow> db \<Rightarrow> outcome \<times> db" where
  "get_task e i d =
     (case get_or_404 e i d of
        (Inl ex, d1) \<Rightarrow> (Inl ex, d1)
      | (Inr t, d1) \<Rightarrow> (Inr (to_dict t, 200), d1))"

text \<open>The \<open>try\<close> block of \<open>create_task\<close>, lines 84-99.\<close>

definition create_task_try :: "env \<Rightarrow> request \<Rightarrow> db \<Rightarrow> outcome \<times> db" where
  "create_task_try e req d =
     (case get_json req of
        Inl ex \<Rightarrow> (Inl ex, d)
      | Inr data \<Rightarrow>
          if \<not> truthy data then (Inr (error_body ''Title is required'', 400), d)
          else
            (case py_in ''title'' data of
               Inl ex \<Rightarrow> (Inl ex, d)
             | Inr False \<Rightarrow> (Inr (error_body ''Title is required'', 400), d)
             | Inr True \<Rightarrow>
                 (case subscript data ''title'' of
                    Inl ex \<Rightarrow> (Inl ex, d)
                  | Inr ti \<Rightarrow>
                 (case dict_get data ''description'' (JStr []) of
                    Inl ex \<Rightarrow> (Inl ex, d)
                  | Inr de \<Rightarrow>
                 (case dict_get data ''status'' (JStr ''pending'') of
                    Inl ex \<Rightarrow> (Inl ex, d)
                  | Inr st \<Rightarrow>
                 (case session_commit e (session_add ti de st d) of
                    (Inl ex, d1) \<Rightarrow> (Inl ex, d1)
                  | (Inr u, d1) \<Rightarrow>
                 (case session_task d1 of
                    Inl ex \<Rightarrow> (Inl ex, d1)
                  | Inr t \<Rightarrow> (Inr (to_dict t, 201), d1))))))))"

text \<open>
  The \<open>except Exception\<close> clause shared by \<open>create_task\<close>, \<open>update_task\<close> and
  \<open>delete_task\<close>: roll back and answer 500 with \<open>str(e)\<close>.
\<close>

definition except_rollback :: "outcome \<times> db \<Rightarrow> outcome \<times> db" where
  "except_rollback r =
     (case r of
        (Inr resp, d) \<Rightarrow> (Inr resp, d)
      | (Inl ex, d) \<Rightarrow> (Inr (error_body (str_exn ex), 500), session_rollback d))"

text \<open>\<open>create_task\<close>, lines 80-103.\<close>

definition create_task :: "env \<Rightarrow> request \<Rightarrow> db \<Rightarrow> outcome \<times> db" where
  "create_task e req d = except_rollback (create_task_try e req d)"

text \<open>
  One of the three statements \<open>if key in data: task.attr = data[key]\<close> of
  \<open>update_task\<close>, lines 112-117.
\<close>

definition assign_if_present :: "column \<Rightarrow> json \<Rightarrow> db \<Rightarrow> (exn + unit) \<times> db" where
  "assign_if_present c data d =
     (case py_in (key_of c) data of
        Inl ex \<Rightarrow> (Inl ex, d)
      | Inr False \<Rightarrow> (Inr (), d)
      | Inr True \<Rightarrow>
          (case subscript data (key_of c) of
             Inl ex \<Rightarrow> (Inl ex, d)
           | Inr v \<Rightarrow> (Inr (), setattr c v d)))"

text \<open>The \<open>try\<close> block of \<open>update_task\<close>, lines 109-121.\<close>

definition update_task_try :: "env \<Rightarrow> request \<Rightarrow> int \<Rightarrow> db \<Rightarrow> outcome \<times> db" where
  "update_task_try e req i d =
     (case get_or_404 e i d of
        (Inl ex, d0) \<Rightarrow> (Inl ex, d0)
      | (Inr t0, d0) \<Rightarrow>
     (case get_json req of
        Inl ex \<Rightarrow> (Inl ex, d0)
      | Inr data \<Rightarrow>
     (case assign_if_present Title data d0 of
        (Inl ex, d1) \<Rightarrow> (Inl ex, d1)
      | (Inr u1, d1) \<Rightarrow>
     (case assign_if_present Description data d1 of
        (Inl ex, d2) \<Rightarrow> (Inl ex, d2)
      | (Inr u2, d2) \<Rightarrow>
     (case assign_if_present Status data d2 of
        (Inl ex, d3) \<Rightarrow> (Inl ex, d3)
      | (Inr u3, d3) \<Rightarrow>
     (case session_commit e d3 of
        (Inl ex, d4) \<Rightarrow> (Inl ex, d4)
      | (Inr u4, d4) \<Rightarrow>
     (case session_task d4 of
        Inl ex \<Rightarrow> (Inl ex, d4)
      | Inr t \<Rightarrow> (Inr (to_dict t, 200), d4))))))))"

text \<open>\<open>update_task\<close>, lines 105-125.\<close>

definition update_task :: "env \<Rightarrow> request \<Rightarrow> int \<Rightarrow> db \<Rightarrow> outcome \<times> db" where
  "update_task e req i d = except_rollback (update_task_try e req i d)"

text \<open>The \<open>try\<close> block of \<open>delete_task\<close>, lines 131-135.\<close>

definition delete_task_try :: "env \<Rightarrow> int \<Rightarrow> db \<Rightarrow> outcome \<times> db" where
  "delete_task_try e i d =
     (case get_or_404 e i d of
        (Inl ex, d0) \<Rightarrow> (Inl ex, d0)
      | (Inr t0, d0) \<Rightarrow>
     (case session_commit e (session_delete d0) of
        (Inl ex, d1) \<Rightarrow> (Inl ex, d1)
      | (Inr u, d1) \<Rightarrow>
          (Inr (JObj [(''message'', JStr ''Task deleted successfully'')], 200), d1)))"

text \<open>\<open>delete_task\<close>, lines 127-139.\<close>

definition delete_task :: "env \<Rightarrow> int \<Rightarrow> db \<Rightarrow> outcome \<times> db" where
  "delete_task e i d = except_rollback (delete_task_try e i d)"

text \<open>
  The status the client receives. Flask turns an \<open>HTTPException\<close> that leaves a handler
  into a response with its code, and any other exception into 500.
\<close>

fun status_of :: "outcome \<Rightarrow> nat" where
  "status_of (Inr (body, code)) = code"
| "status_of (Inl (HTTPException code s)) = code"
| "status_of (Inl ex) = 500"

fun body_of :: "outcome \<Rightarrow> json option" where
  "body_of (Inr (body, code)) = Some body"
| "body_of (Inl ex) = None"

text \<open>\<open>index\<close>, lines 141-153.\<close>

definition index :: "db \<Rightarrow> outcome \<times> db" where
  "index d =
     (Inr (JObj [(''message'', JStr ''DevOps Task Manager API''),
                 (''version'', JStr ''1.0.0''),
                 (''endpoints'', JObj [(''health'', JStr ''/health''),
                                       (''ready'', JStr ''/ready''),
                                       (''tasks'', JStr ''/api/tasks''),
                                       (''metrics'', JStr ''/metrics'')])], 200), d)"

subsection \<open>Serving requests\<close>

datatype call =
    Health
  | Ready
  | ListTasks
  | GetTask int
  | CreateTask request
  | UpdateTask int request
  | DeleteTask int
  | Index

fun dispatch :: "env \<Rightarrow> call \<Rightarrow> db \<Rightarrow> outcome \<times> db" where
  "dispatch e Health d = health_check e d"
| "dispatch e Ready d = readiness_check d"
| "dispatch e ListTasks d = get_tasks e d"
| "dispatch e (GetTask i) d = get_task e i d"
| "dispatch e (CreateTask req) d = create_task e req d"
| "dispatch e (UpdateTask i req) d = update_task e req i d"
| "dispatch e (DeleteTask i) d = delete_task e i d"
| "dispatch e Index d = index d"

text \<open>
  One request from start to end: the handler runs, then the request's session is removed
  (Flask-SQLAlchemy scopes \<open>db.session\<close> to the request).
\<close>

definition serve :: "env \<Rightarrow> call \<Rightarrow> db \<Rightarrow> outcome \<times> db" where
  "serve e c d = (case dispatch e c d of (out, d1) \<Rightarrow> (out, d1\<lparr>session := Empty\<rparr>))"

text \<open>
  The clock does not run backwards: a request reads no time earlier than a timestamp
  already stored, and its second reading is not earlier than its first.
\<close>

definition clock_ok :: "env \<Rightarrow> db \<Rightarrow> bool" where
  "clock_ok e d =
     (dt_le (utcnow e 0) (utcnow e 1) \<and>
      list_all (\<lambda>t. dt_le (updated_at t) (utcnow e 0)) (table d))"

text \<open>The databases the service can be in: the empty one, and what requests make of it.\<close>

inductive reachable :: "db \<Rightarrow> bool" where
  start: "reachable init_db"
| step: "reachable d \<Longrightarrow> clock_ok e d \<Longrightarrow> reachable (snd (serve e c d))"


text \<open>
  The four ways in which a request can leave the table and the id sequence: as they were,
  with one row appended under the next id, with the row of one id replaced by a row that
  keeps the id and \<open>created_at\<close>, or without the rows of one id.
\<close>

inductive effect :: "env \<Rightarrow> db \<Rightarrow> db \<Rightarrow> bool" where
  unchanged: "table d' = table d \<Longrightarrow> seq d' = seq d \<Longrightarrow> effect e d d'"
| inserted: "table d' = table d @ [row] \<Longrightarrow> seq d' = seq d + 1 \<Longrightarrow> task_id row = seq d \<Longrightarrow>
     title row \<noteq> JNull \<Longrightarrow> created_at row = utcnow e 0 \<Longrightarrow> updated_at row = utcnow e 1 \<Longrightarrow>
     effect e d d'"
| replaced: "find_task i d = Some t \<Longrightarrow> task_id row = i \<Longrightarrow> title row \<noteq> JNull \<Longrightarrow>
     created_at row = created_at t \<Longrightarrow> updated_at row = utcnow e 0 \<Longrightarrow>
     table d' = map (\<lambda>r. if task_id r = i then row else r) (table d) \<Longrightarrow> seq d' = seq d \<Longrightarrow>
     effect e d d'"
| removed: "table d' = filter (\<lambda>r. task_id r \<noteq> i) (table d) \<Longrightarrow> seq d' = seq d \<Longrightarrow>
     effect e d d'"

text \<open>
  The invariant of the store: the sequence is positive and ahead of every id, the ids are
  positive and pairwise different, no title is null, and no row has an \<open>updated_at\<close>
  earlier than its \<open>created_at\<close>.
\<close>

definition db_inv :: "db \<Rightarrow> bool" where
  "db_inv d =
     (0 < seq d \<and> distinct (map task_id (table d)) \<and>
      list_all (\<lambda>t. 0 < task_id t \<and> task_id t < seq d \<and> title t \<noteq> JNull \<and>
                     dt_le (created_at t) (updated_at t)) (table d))"

subsection \<open>Sample requests and environments\<close>

definition at_time :: "nat \<Rightarrow> nat \<Rightarrow> datetime" where
  "at_time s us = \<lparr>year = 2024, month = 5, day = 17, hour = 12, minute = 0,
                   second = s, microsecond = us\<rparr>"

text \<open>Storage works; the clock reads 12:00:s and k microseconds at its k-th call.\<close>

definition calm :: "nat \<Rightarrow> env" where
  "calm s = \<lparr>query_error = None, commit_error = None, utcnow = (\<lambda>k. at_time s k)\<rparr>"

text \<open>Storage works; the two readings of the clock lie on both sides of a full second.\<close>

definition on_the_second :: env where
  "on_the_second = \<lparr>query_error = None, commit_error = None,
                     utcnow = (\<lambda>k. if k = 0 then at_time 0 999999 else at_time 1 0)\<rparr>"

definition query_down :: env where
  "query_down = \<lparr>query_error = Some ''connection refused'', commit_error = None,
                  utcnow = (\<lambda>k. at_time 30 k)\<rparr>"


definition with_body :: "json \<Rightarrow> request" where
  "with_body j = \<lparr>get_json = Inr j\<rparr>"

definition title_A :: request where
  "title_A = with_body (JObj [(''title'', JStr ''A'')])"

text \<open>The row that \<open>title_A\<close> creates in the empty database at 12:00:00.\<close>

definition row_A :: task where
  "row_A = \<lparr>task_id = 1, title = JStr ''A'', description = JStr [], status = JStr ''pending'',
            created_at = at_time 0 0, updated_at = at_time 0 1\<rparr>"

definition db_A :: db where
  "db_A = \<lparr>table = [row_A], seq = 2, session = Empty\<rparr>"

section \<open>Properties of the handlers\<close>

subsection \<open>Timestamps and lookups\<close>

lemma dt_le_refl [simp]: "dt_le a a"
  by (simp add: dt_le_def)

lemma dt_le_trans: "dt_le a b \<Longrightarrow> dt_le b c \<Longrightarrow> dt_le a c"
  unfolding dt_le_def by (rule order_trans)

lemma find_task_session [simp]: "find_task i (d\<lparr>session := s\<rparr>) = find_task i d"
  by (simp add: find_task_def)

lemma find_task_SomeD: "find_task i d = Some t \<Longrightarrow> task_id t = i \<and> t \<in> set (table d)"
  by (auto simp: find_task_def find_Some_iff)

lemma find_task_None_iff: "find_task i d = None \<longleftrightarrow> i \<notin> task_id ` set (table d)"
  by (auto simp: find_task_def find_None_iff)





lemma find_snoc:
  "find P (xs @ [y]) = (case find P xs of Some x \<Rightarrow> Some x | None \<Rightarrow> if P y then Some y else None)"
  by (induction xs) auto

lemma map_task_id_replace:
  "task_id row = i \<Longrightarrow> map task_id (map (\<lambda>r. if task_id r = i then row else r) xs) = map task_id xs"
  by (induction xs) auto

subsection \<open>The except clause and the lookup\<close>

lemma except_rollback_Inr [simp]: "except_rollback (Inr r, d) = (Inr r, d)"
  by (simp add: except_rollback_def)

lemma except_rollback_Inl [simp]:
  "except_rollback (Inl ex, d) = (Inr (error_body (str_exn ex), 500), d\<lparr>session := Empty\<rparr>)"
  by (simp add: except_rollback_def session_rollback_def)


lemma get_or_404_absent:
  "query_error e = None \<Longrightarrow> find_task i d = None \<Longrightarrow> get_or_404 e i d = (Inl NotFound, d)"
  by (simp add: get_or_404_def)

lemma get_or_404_present:
  "query_error e = None \<Longrightarrow> find_task i d = Some t \<Longrightarrow>
   get_or_404 e i d = (Inr t, d\<lparr>session := Persistent t\<rparr>)"
  by (simp add: get_or_404_def)

lemma get_or_404_down:
  "query_error e = Some m \<Longrightarrow> get_or_404 e i d = (Inl (SQLAlchemyError m), d)"
  by (simp add: get_or_404_def)


lemma get_task_absent:
  "query_error e = None \<Longrightarrow> find_task i d = None \<Longrightarrow> get_task e i d = (Inl NotFound, d)"
  by (simp add: get_task_def get_or_404_absent)

subsection \<open>The session\<close>

lemma assign_if_present_object:
  "assign_if_present c (JObj kv) d =
     (Inr (), case map_of kv (key_of c) of None \<Rightarrow> d | Some v \<Rightarrow> setattr c v d)"
  by (simp add: assign_if_present_def split: option.splits)

lemma assign_if_present_other:
  "\<forall>kv. data \<noteq> JObj kv \<Longrightarrow>
   snd (assign_if_present c data d) = d \<and>
   (fst (assign_if_present c data d) = Inr ()) = (py_in (key_of c) data = Inr False) \<and>
   (\<forall>u. fst (assign_if_present c data d) = Inr u \<longrightarrow> py_in (key_of c) data = Inr False)"
  by (cases data) (auto simp: assign_if_present_def split: sum.splits bool.splits)






lemma session_commit_add:
  "session_commit e (session_add ti de st d) =
     (case commit_error e of
        Some m \<Rightarrow> (Inl (SQLAlchemyError m), d\<lparr>session := Pending ti de st\<rparr>)
      | None \<Rightarrow>
          if ti = JNull
          then (Inl (SQLAlchemyError not_null_violation), d\<lparr>session := Pending ti de st\<rparr>)
          else (Inr (),
                d\<lparr>table := table d @
                       [\<lparr>task_id = seq d, title = ti, description = de, status = st,
                         created_at = utcnow e 0, updated_at = utcnow e 1\<rparr>],
                  seq := seq d + 1,
                  session := Persistent
                       \<lparr>task_id = seq d, title = ti, description = de, status = st,
                         created_at = utcnow e 0, updated_at = utcnow e 1\<rparr>\<rparr>))"
  by (simp add: session_commit_def session_add_def Let_def split: option.splits)


subsection \<open>What create_task returns\<close>

lemma create_task_rejected:
  assumes "get_json req = Inr data"
    and "data = JNull \<or> (\<exists>kv. data = JObj kv \<and> map_of kv ''title'' = None)"
  shows "create_task e req d = (Inr (error_body ''Title is required'', 400), d)"
  using assms by (auto simp: create_task_def create_task_try_def)

lemma create_task_object:
  assumes "get_json req = Inr (JObj kv)" and "map_of kv ''title'' = Some ti"
  shows "create_task e req d =
     (case commit_error e of
        Some m \<Rightarrow> (Inr (error_body m, 500), d\<lparr>session := Empty\<rparr>)
      | None \<Rightarrow>
          if ti = JNull then (Inr (error_body not_null_violation, 500), d\<lparr>session := Empty\<rparr>)
          else
            let row = \<lparr>task_id = seq d, title = ti,
                       description = (case map_of kv ''description'' of Some v \<Rightarrow> v | None \<Rightarrow> JStr []),
                       status = (case map_of kv ''status'' of Some v \<Rightarrow> v | None \<Rightarrow> JStr ''pending''),
                       created_at = utcnow e 0, updated_at = utcnow e 1\<rparr>
            in (Inr (to_dict row, 201),
                d\<lparr>table := table d @ [row], seq := seq d + 1, session := Persistent row\<rparr>))"
proof -
  from assms(2) have "kv \<noteq> []" by auto
  with assms show ?thesis
    by (simp add: create_task_def create_task_try_def session_add_def session_commit_def
        session_task_def Let_def split: option.splits)
qed

lemma create_task_try_raises:
  "create_task_try e req d = (Inl ex, d') \<Longrightarrow> table d' = table d \<and> seq d' = seq d"
  unfolding create_task_try_def session_commit_add
  by (auto simp: session_task_def split: sum.splits bool.splits option.splits if_splits)

lemma create_task_try_returns:
  "create_task_try e req d = (Inr resp, d') \<Longrightarrow>
   d' = d \<or>
   (\<exists>row. table d' = table d @ [row] \<and> seq d' = seq d + 1 \<and> task_id row = seq d \<and>
      title row \<noteq> JNull \<and> created_at row = utcnow e 0 \<and> updated_at row = utcnow e 1)"
  unfolding create_task_try_def session_commit_add
  by (auto simp: session_task_def split: sum.splits bool.splits option.splits if_splits)

subsection \<open>What update_task returns\<close>

lemma update_task_absent:
  "query_error e = None \<Longrightarrow> find_task i d = None \<Longrightarrow>
   update_task e req i d = (Inr (error_body (str_exn NotFound), 500), d\<lparr>session := Empty\<rparr>)"
  by (simp add: update_task_def update_task_try_def get_or_404_absent)

lemma update_task_query_down:
  "query_error e = Some m \<Longrightarrow>
   update_task e req i d = (Inr (error_body m, 500), d\<lparr>session := Empty\<rparr>)"
  by (simp add: update_task_def update_task_try_def get_or_404_down)

lemma update_task_no_json:
  "query_error e = None \<Longrightarrow> find_task i d = Some t \<Longrightarrow> get_json req = Inl ex \<Longrightarrow>
   update_task e req i d = (Inr (error_body (str_exn ex), 500), d\<lparr>session := Empty\<rparr>)"
  by (simp add: update_task_def update_task_try_def get_or_404_present)

lemma update_task_object:
  assumes q: "query_error e = None" and f: "find_task i d = Some t"
    and j: "get_json req = Inr (JObj kv)"
  shows "update_task e req i d =
     (let t3 = t\<lparr>title := (case map_of kv ''title'' of None \<Rightarrow> title t | Some v \<Rightarrow> v),
                  description := (case map_of kv ''description'' of None \<Rightarrow> description t | Some v \<Rightarrow> v),
                  status := (case map_of kv ''status'' of None \<Rightarrow> status t | Some v \<Rightarrow> v)\<rparr>;
          row = t3\<lparr>updated_at := utcnow e 0\<rparr>
      in case commit_error e of
           Some m \<Rightarrow> (Inr (error_body m, 500), d\<lparr>session := Empty\<rparr>)
         | None \<Rightarrow>
             if t3 = t then (Inr (to_dict t, 200), d\<lparr>session := Persistent t\<rparr>)
             else if title t3 = JNull
               then (Inr (error_body not_null_violation, 500), d\<lparr>session := Empty\<rparr>)
             else (Inr (to_dict row, 200),
                   d\<lparr>table := map (\<lambda>r. if task_id r = i then row else r) (table d),
                     session := Persistent row\<rparr>))"
proof -
  from f have id: "task_id t = i" by (simp add: find_task_SomeD)
  show ?thesis
    using q f j id
    by (cases t)
      (auto simp: update_task_def update_task_try_def get_or_404_present
        assign_if_present_object setattr_def session_commit_def session_task_def Let_def
        split: option.splits)
qed

lemma update_task_other_quiet:
  assumes q: "query_error e = None" and f: "find_task i d = Some t"
    and j: "get_json req = Inr data" and n: "\<forall>kv. data \<noteq> JObj kv"
    and quiet: "py_in ''title'' data = Inr False" "py_in ''description'' data = Inr False"
      "py_in ''status'' data = Inr False"
  shows "update_task e req i d =
     (case commit_error e of
        Some m \<Rightarrow> (Inr (error_body m, 500), d\<lparr>session := Empty\<rparr>)
      | None \<Rightarrow> (Inr (to_dict t, 200), d\<lparr>session := Persistent t\<rparr>))"
proof -
  from f have id: "task_id t = i" by (simp add: find_task_SomeD)
  show ?thesis
    using q f j id n quiet
    by (simp add: update_task_def update_task_try_def get_or_404_present
        assign_if_present_def session_commit_def session_task_def
        split: option.splits)
qed

lemma update_task_other_raises:
  assumes q: "query_error e = None" and f: "find_task i d = Some t"
    and j: "get_json req = Inr data" and n: "\<forall>kv. data \<noteq> JObj kv"
    and loud: "\<not> (py_in ''title'' data = Inr False \<and> py_in ''description'' data = Inr False \<and>
      py_in ''status'' data = Inr False)"
  shows "\<exists>m. update_task e req i d = (Inr (error_body m, 500), d\<lparr>session := Empty\<rparr>)"
  using q f j n loud
  by (cases data)
    (auto simp: update_task_def update_task_try_def get_or_404_present
      assign_if_present_def split: sum.splits bool.splits)


subsection \<open>What delete_task returns\<close>

lemma delete_task_absent:
  "query_error e = None \<Longrightarrow> find_task i d = None \<Longrightarrow>
   delete_task e i d = (Inr (error_body (str_exn NotFound), 500), d\<lparr>session := Empty\<rparr>)"
  by (simp add: delete_task_def delete_task_try_def get_or_404_absent)

lemma delete_task_present:
  "query_error e = None \<Longrightarrow> commit_error e = None \<Longrightarrow> find_task i d = Some t \<Longrightarrow>
   delete_task e i d =
     (Inr (JObj [(''message'', JStr ''Task deleted successfully'')], 200),
      d\<lparr>table := filter (\<lambda>r. task_id r \<noteq> task_id t) (table d), session := Empty\<rparr>)"
  by (simp add: delete_task_def delete_task_try_def get_or_404_present session_delete_def
      session_commit_def)

lemma delete_task_query_down:
  "query_error e = Some m \<Longrightarrow>
   delete_task e i d = (Inr (error_body m, 500), d\<lparr>session := Empty\<rparr>)"
  by (simp add: delete_task_def delete_task_try_def get_or_404_down)

lemma delete_task_commit_down:
  "query_error e = None \<Longrightarrow> find_task i d = Some t \<Longrightarrow> commit_error e = Some m \<Longrightarrow>
   delete_task e i d = (Inr (error_body m, 500), d\<lparr>session := Empty\<rparr>)"
  by (simp add: delete_task_def delete_task_try_def get_or_404_present session_delete_def
      session_commit_def)


subsection \<open>The effect of a request on the store\<close>

lemma create_task_effect: "effect e d (snd (create_task e req d))"
proof -
  obtain r d1 where b: "create_task_try e req d = (r, d1)" by (cases "create_task_try e req d")
  show ?thesis
  proof (cases r)
    case (Inl ex)
    with b create_task_try_raises [of e req d ex d1] show ?thesis
      by (auto simp: create_task_def intro: effect.unchanged)
  next
    case (Inr resp)
    with b create_task_try_returns [of e req d resp d1] show ?thesis
      by (auto simp: create_task_def intro: effect.unchanged effect.inserted)
  qed
qed

lemma update_task_effect: "effect e d (snd (update_task e req i d))"
proof (cases "query_error e")
  case (Some m)
  then show ?thesis by (simp add: update_task_query_down effect.unchanged)
next
  case q: None
  show ?thesis
  proof (cases "find_task i d")
    case None
    with q show ?thesis by (simp add: update_task_absent effect.unchanged)
  next
    case f: (Some t)
    show ?thesis
    proof (cases "get_json req")
      case (Inl ex)
      with q f show ?thesis by (simp add: update_task_no_json effect.unchanged)
    next
      case j: (Inr data)
      show ?thesis
      proof (cases "\<exists>kv. data = JObj kv")
        case True
        then obtain kv where kv: "data = JObj kv" ..
        define t3 where "t3 = t\<lparr>title := (case map_of kv ''title'' of None \<Rightarrow> title t | Some v \<Rightarrow> v),
          description := (case map_of kv ''description'' of None \<Rightarrow> description t | Some v \<Rightarrow> v),
          status := (case map_of kv ''status'' of None \<Rightarrow> status t | Some v \<Rightarrow> v)\<rparr>"
        define row where "row = t3\<lparr>updated_at := utcnow e 0\<rparr>"
        have u: "update_task e req i d =
           (case commit_error e of
              Some m \<Rightarrow> (Inr (error_body m, 500), d\<lparr>session := Empty\<rparr>)
            | None \<Rightarrow>
                if t3 = t then (Inr (to_dict t, 200), d\<lparr>session := Persistent t\<rparr>)
                else if title t3 = JNull
                  then (Inr (error_body not_null_violation, 500), d\<lparr>session := Empty\<rparr>)
                else (Inr (to_dict row, 200),
                      d\<lparr>table := map (\<lambda>r. if task_id r = i then row else r) (table d),
                        session := Persistent row\<rparr>))"
          unfolding t3_def row_def
          by (rule update_task_object [OF q f j [unfolded kv], unfolded Let_def])
        from f have id: "task_id t = i" by (simp add: find_task_SomeD)
        have rw: "task_id row = i" "created_at row = created_at t" "updated_at row = utcnow e 0"
          "title row = title t3"
          using id by (simp_all add: row_def t3_def)
        show ?thesis
        proof (cases "commit_error e = None \<and> t3 \<noteq> t \<and> title t3 \<noteq> JNull")
          case True
          with u have "snd (update_task e req i d) =
              d\<lparr>table := map (\<lambda>r. if task_id r = i then row else r) (table d),
                session := Persistent row\<rparr>"
            by simp
          with f rw True show ?thesis
            by (intro effect.replaced [where i = i and t = t and row = row]) simp_all
        next
          case False
          with u have "table (snd (update_task e req i d)) = table d \<and>
              seq (snd (update_task e req i d)) = seq d"
            by (auto split: option.splits)
          then show ?thesis by (simp add: effect.unchanged)
        qed
      next
        case False
        then have n: "\<forall>kv. data \<noteq> JObj kv" by simp
        show ?thesis
        proof (cases "py_in ''title'' data = Inr False \<and> py_in ''description'' data = Inr False \<and>
            py_in ''status'' data = Inr False")
          case True
          with update_task_other_quiet [OF q f j n] show ?thesis
            by (auto split: option.splits intro: effect.unchanged)
        next
          case False
          with update_task_other_raises [OF q f j n] show ?thesis
            by (auto intro: effect.unchanged)
        qed
      qed
    qed
  qed
qed

lemma delete_task_effect: "effect e d (snd (delete_task e i d))"
proof (cases "query_error e")
  case (Some m)
  then show ?thesis by (simp add: delete_task_query_down effect.unchanged)
next
  case q: None
  show ?thesis
  proof (cases "find_task i d")
    case None
    with q show ?thesis by (simp add: delete_task_absent effect.unchanged)
  next
    case f: (Some t)
    then have id: "task_id t = i" by (simp add: find_task_SomeD)
    show ?thesis
    proof (cases "commit_error e")
      case None
      with q f id show ?thesis
        by (simp add: delete_task_present [where t = t] effect.removed [where i = i])
    next
      case (Some m)
      with q f show ?thesis by (simp add: delete_task_commit_down effect.unchanged)
    qed
  qed
qed

lemma serve_effect: "effect e d (snd (serve e c d))"
proof -
  have "effect e d (snd (dispatch e c d))"
  proof (cases c)
    case (GetTask i)
    then show ?thesis
      by (auto simp: get_task_def get_or_404_def split: option.splits intro: effect.unchanged)
  next
    case (CreateTask req)
    then show ?thesis by (simp add: create_task_effect)
  next
    case (UpdateTask i req)
    then show ?thesis by (simp add: update_task_effect)
  next
    case (DeleteTask i)
    then show ?thesis by (simp add: delete_task_effect)
  qed (auto simp: health_check_def readiness_check_def get_tasks_def index_def
      split: option.splits intro: effect.unchanged)
  then have "effect e d ((snd (dispatch e c d))\<lparr>session := Empty\<rparr>)"
    by (induction rule: effect.induct)
      (auto simp: find_task_def intro: effect.intros)
  then show ?thesis by (cases "dispatch e c d") (simp add: serve_def)
qed

subsection \<open>The invariant of the store\<close>

lemma effect_inv:
  assumes "effect e d d'" and "db_inv d" and "clock_ok e d"
  shows "db_inv d'"
  using assms
proof (induction rule: effect.induct)
  case (unchanged d' d e)
  then show ?case by (simp add: db_inv_def)
next
  case (inserted d' d row e)
  then show ?case
    by (auto simp: db_inv_def clock_ok_def list_all_iff)
next
  case (replaced i d t row e d')
  from replaced(1) have t: "task_id t = i" "t \<in> set (table d)"
    by (simp_all add: find_task_SomeD)
  with replaced(8,9) have old: "0 < i" "i < seq d" "dt_le (created_at t) (updated_at t)"
    "dt_le (updated_at t) (utcnow e 0)"
    by (auto simp: db_inv_def clock_ok_def list_all_iff)
  then have times: "dt_le (created_at row) (updated_at row)"
    using replaced(4,5) by (auto intro: dt_le_trans)
  have ids: "map task_id (table d') = map task_id (table d)"
    unfolding replaced(6) by (rule map_task_id_replace) (rule replaced(2))
  from replaced(8) have "distinct (map task_id (table d))" by (simp add: db_inv_def)
  with ids have dist: "distinct (map task_id (table d'))" by simp
  from replaced(8) have rows: "\<forall>r\<in>set (table d). 0 < task_id r \<and> task_id r < seq d \<and>
      title r \<noteq> JNull \<and> dt_le (created_at r) (updated_at r)"
    by (simp add: db_inv_def list_all_iff)
  have "\<forall>r\<in>set (table d'). 0 < task_id r \<and> task_id r < seq d' \<and>
      title r \<noteq> JNull \<and> dt_le (created_at r) (updated_at r)"
    unfolding replaced(6,7) using rows old times replaced(2,3) by auto
  moreover from replaced(7,8) have "0 < seq d'" by (simp add: db_inv_def)
  ultimately show ?case using dist by (simp add: db_inv_def list_all_iff)
next
  case (removed d' i d e)
  then show ?case
    by (auto simp: db_inv_def list_all_iff distinct_map_filter)
qed

lemma init_db_inv: "db_inv init_db"
  by (simp add: db_inv_def init_db_def)

lemma reachable_inv: "reachable d \<Longrightarrow> db_inv d"
proof (induction rule: reachable.induct)
  case start
  show ?case by (rule init_db_inv)
next
  case (step d e c)
  from serve_effect step.IH step.hyps(2) show ?case by (rule effect_inv)
qed




subsection \<open>The sample values\<close>

lemma calm_simps [simp]:
  "query_error (calm s) = None" "commit_error (calm s) = None" "utcnow (calm s) k = at_time s k"
  by (simp_all add: calm_def)

lemma with_body_simp [simp]: "get_json (with_body j) = Inr j"
  by (simp add: with_body_def)

lemma title_A_simp [simp]: "get_json title_A = Inr (JObj [(''title'', JStr ''A'')])"
  by (simp add: title_A_def)

lemma at_time_eq [simp]: "(at_time s us = at_time s' us') = (s = s' \<and> us = us')"
  by (auto simp: at_time_def)

lemma dt_le_at_time [simp]: "dt_le (at_time s us) (at_time s' us') = (s < s' \<or> s = s' \<and> us \<le> us')"
  by (auto simp: dt_le_def dt_key_def at_time_def)

lemma to_second_at_time [simp]: "to_second (at_time s us) = at_time s 0"
  by (simp add: to_second_def at_time_def)

lemma find_task_db_A [simp]:
  "find_task i db_A = (if i = 1 then Some row_A else None)"
  by (simp add: find_task_def db_A_def row_A_def)



section \<open>The claims of the specification\<close>

text \<open>
  Claim C1 says that PUT and DELETE on an id that is not in the table answer 404, also
  when the same DELETE is repeated. The handlers call \<open>get_or_404\<close> inside their
  \<open>try\<close> block, so the \<open>NotFound\<close> it raises is caught by \<open>except Exception\<close> and
  answered with 500 and the text of the 404 error. Here: PUT and DELETE on the absent id 7
  answer 500; DELETE on the present id 1 answers 200 and the same DELETE again answers 500;
  \<open>get_task\<close>, which has no \<open>try\<close>, lets the 404 through.
\<close>

theorem put_delete_absent_id_answer_500:
  "fst (update_task (calm 30) title_A 7 db_A) = Inr (error_body (str_exn NotFound), 500) \<and>
   fst (delete_task (calm 30) 7 db_A) = Inr (error_body (str_exn NotFound), 500) \<and>
   status_of (fst (delete_task (calm 30) 1 db_A)) = 200 \<and>
   fst (delete_task (calm 40) 1 (snd (delete_task (calm 30) 1 db_A)))
     = Inr (error_body (str_exn NotFound), 500) \<and>
   status_of (fst (get_task (calm 30) 7 db_A)) = 404"
proof -
  have gone: "find_task 1 (snd (delete_task (calm 30) 1 db_A)) = None"
    by (simp add: delete_task_present [where t = row_A]) (simp add: find_task_def db_A_def)
  have again: "fst (delete_task (calm 40) 1 (snd (delete_task (calm 30) 1 db_A)))
      = Inr (error_body (str_exn NotFound), 500)"
    using delete_task_absent [OF _ gone, of "calm 40"] by simp
  have first: "status_of (fst (delete_task (calm 30) 1 db_A)) = 200"
    by (simp add: delete_task_present [where t = row_A])
  have others: "fst (update_task (calm 30) title_A 7 db_A) = Inr (error_body (str_exn NotFound), 500)"
    "fst (delete_task (calm 30) 7 db_A) = Inr (error_body (str_exn NotFound), 500)"
    "status_of (fst (get_task (calm 30) 7 db_A)) = 404"
    by (simp_all add: update_task_absent delete_task_absent get_task_absent NotFound_def)
  from others first again show ?thesis by blast
qed

text \<open>
  Claim C2, as amended: a PUT on an existing task whose JSON object has none of the keys
  \<open>title\<close>, \<open>description\<close>, \<open>status\<close> changes nothing and answers 200 with the
  task as it was when storage works. No attribute was assigned, so the commit sends no
  UPDATE, \<open>onupdate\<close> does not run, and \<open>updated_at\<close> keeps its value.
\<close>

theorem update_task_no_recognized_keys:
  assumes "query_error e = None" and "commit_error e = None"
    and "find_task i d = Some t" and "get_json req = Inr (JObj kv)"
    and "map_of kv ''title'' = None" and "map_of kv ''description'' = None"
    and "map_of kv ''status'' = None"
  shows "fst (update_task e req i d) = Inr (to_dict t, 200) \<and>
         table (snd (update_task e req i d)) = table d \<and>
         find_task i (snd (update_task e req i d)) = Some t"
  using assms by (simp add: update_task_object)

theorem update_task_no_recognized_keys_witness:
  "find_task 1 db_A = Some row_A \<and>
   map_of [(''note'', JStr ''x'')] ''title'' = None \<and>
   fst (update_task (calm 30) (with_body (JObj [(''note'', JStr ''x'')])) 1 db_A)
     = Inr (to_dict row_A, 200) \<and>
   table (snd (update_task (calm 30) (with_body (JObj [(''note'', JStr ''x'')])) 1 db_A))
     = table db_A"
  using update_task_no_recognized_keys
    [of "calm 30" 1 db_A row_A "with_body (JObj [(''note'', JStr ''x'')])" "[(''note'', JStr ''x'')]"]
  by simp

text \<open>
  Claim C2 as stated fails: at 12:00:30 a PUT with the body \<open>{}\<close> on the task created at
  12:00:00 answers 200, and both the response and the stored row still carry the
  \<open>updated_at\<close> of 12:00:00, not the time of the request.
\<close>

theorem update_task_no_keys_counterexample:
  "fst (update_task (calm 30) (with_body (JObj [])) 1 db_A) = Inr (to_dict row_A, 200) \<and>
   find_task 1 (snd (update_task (calm 30) (with_body (JObj [])) 1 db_A)) = Some row_A \<and>
   updated_at row_A = at_time 0 1 \<and>
   utcnow (calm 30) 0 = at_time 30 0 \<and>
   updated_at row_A \<noteq> utcnow (calm 30) 0"
  by (simp add: update_task_object [where t = row_A and kv = "[]"]) (simp add: row_A_def)

text \<open>
  Claim C3, as amended: a POST whose body is missing (\<open>get_json\<close> yields \<open>None\<close>) or is
  a JSON object without the key \<open>title\<close> answers 400 and leaves the database as it was,
  so a following list is the same. The handler tests the presence of the key only: an
  object whose \<open>title\<close> is the empty string passes, and with storage working it is
  answered with 201 and one more row.
\<close>

theorem create_task_requires_title_key:
  "(get_json req = Inr data \<and>
      (data = JNull \<or> (\<exists>kv. data = JObj kv \<and> map_of kv ''title'' = None)) \<longrightarrow>
      create_task e req d = (Inr (error_body ''Title is required'', 400), d) \<and>
      get_tasks e' (snd (create_task e req d)) = get_tasks e' d) \<and>
   (get_json req = Inr (JObj kv) \<and> map_of kv ''title'' = Some (JStr []) \<and>
      commit_error e = None \<longrightarrow>
      status_of (fst (create_task e req d)) = 201 \<and>
      length (table (snd (create_task e req d))) = length (table d) + 1)"
proof (intro conjI impI)
  assume a: "get_json req = Inr data \<and>
      (data = JNull \<or> (\<exists>kv. data = JObj kv \<and> map_of kv ''title'' = None))"
  then have r: "create_task e req d = (Inr (error_body ''Title is required'', 400), d)"
    by (intro create_task_rejected) auto
  then show "create_task e req d = (Inr (error_body ''Title is required'', 400), d)" .
  from r show "get_tasks e' (snd (create_task e req d)) = get_tasks e' d" by simp
next
  assume b: "get_json req = Inr (JObj kv) \<and> map_of kv ''title'' = Some (JStr []) \<and>
      commit_error e = None"
  then show "status_of (fst (create_task e req d)) = 201"
    by (simp add: create_task_object [where ti = "JStr []"] Let_def)
  from b show "length (table (snd (create_task e req d))) = length (table d) + 1"
    by (simp add: create_task_object [where ti = "JStr []"] Let_def)
qed

theorem create_task_requires_title_key_witness:
  "create_task (calm 30) (with_body JNull) db_A
     = (Inr (error_body ''Title is required'', 400), db_A) \<and>
   create_task (calm 30) (with_body (JObj [(''status'', JStr ''done'')])) db_A
     = (Inr (error_body ''Title is required'', 400), db_A) \<and>
   status_of (fst (create_task (calm 30) (with_body (JObj [(''title'', JStr [])])) db_A)) = 201 \<and>
   length (table (snd (create_task (calm 30) (with_body (JObj [(''title'', JStr [])])) db_A)))
     = length (table db_A) + 1"
  using create_task_requires_title_key
    [of "with_body JNull" JNull "calm 30" db_A "calm 30" "[]"]
    create_task_requires_title_key
    [of "with_body (JObj [(''status'', JStr ''done'')])" "JObj [(''status'', JStr ''done'')]"
      "calm 30" db_A "calm 30" "[]"]
    create_task_requires_title_key
    [of "with_body (JObj [(''title'', JStr [])])" "JObj [(''title'', JStr [])]"
      "calm 30" db_A "calm 30" "[(''title'', JStr [])]"]
  by simp

text \<open>
  Claim C3 as stated fails on an empty title: the body \<open>{"title": ""}\<close> is answered with
  201 and the empty table gets a row.
\<close>

theorem create_task_empty_title_counterexample:
  "status_of (fst (create_task (calm 0) (with_body (JObj [(''title'', JStr [])])) init_db)) = 201 \<and>
   length (table init_db) = 0 \<and>
   length (table (snd (create_task (calm 0) (with_body (JObj [(''title'', JStr [])])) init_db))) = 1"
  by (simp add: create_task_object [where ti = "JStr []" and kv = "[(''title'', JStr [])]"]
      init_db_def Let_def)



text \<open>
  Claim C5, as amended: in a database the service reaches, with the commit working, a POST
  with the body \<open>{"title": "A"}\<close> answers 201 with the new row, whose id is the next value
  of the sequence and positive, whose description is the empty string and whose status is
  \<open>pending\<close>. \<open>created_at\<close> and \<open>updated_at\<close> are two successive readings of the clock:
  \<open>created_at\<close> is not after \<open>updated_at\<close> when the clock does not run backwards, and
  the two agree to the second when the two readings do.
\<close>

theorem create_task_title_A:
  assumes "reachable d" and "get_json req = Inr (JObj [(''title'', JStr ''A'')])"
    and "commit_error e = None"
  shows "\<exists>row. create_task e req d =
           (Inr (to_dict row, 201),
            d\<lparr>table := table d @ [row], seq := seq d + 1, session := Persistent row\<rparr>) \<and>
      task_id row = seq d \<and> 0 < task_id row \<and>
      title row = JStr ''A'' \<and> description row = JStr [] \<and> status row = JStr ''pending'' \<and>
      created_at row = utcnow e 0 \<and> updated_at row = utcnow e 1 \<and>
      (to_second (utcnow e 0) = to_second (utcnow e 1) \<longrightarrow>
         to_second (created_at row) = to_second (updated_at row)) \<and>
      (dt_le (utcnow e 0) (utcnow e 1) \<longrightarrow> dt_le (created_at row) (updated_at row)) \<and>
      find_task (task_id row) (snd (create_task e req d)) = Some row"
proof -
  define row where "row = \<lparr>task_id = seq d, title = JStr ''A'', description = JStr [],
      status = JStr ''pending'', created_at = utcnow e 0, updated_at = utcnow e 1\<rparr>"
  from assms(1) have inv: "db_inv d" by (rule reachable_inv)
  then have pos: "0 < seq d" and below: "\<forall>t\<in>set (table d). task_id t < seq d"
    by (simp_all add: db_inv_def list_all_iff)
  have made: "create_task e req d =
      (Inr (to_dict row, 201),
       d\<lparr>table := table d @ [row], seq := seq d + 1, session := Persistent row\<rparr>)"
    using assms(2,3)
    by (simp add: create_task_object [where ti = "JStr ''A''" and kv = "[(''title'', JStr ''A'')]"]
        Let_def row_def)
  from below have "find (\<lambda>t. task_id t = seq d) (table d) = None"
    by (auto simp: find_None_iff)
  then have "find_task (task_id row) (snd (create_task e req d)) = Some row"
    by (simp add: made find_task_def find_snoc row_def)
  with made pos show ?thesis
    by (intro exI [of _ row]) (simp add: row_def)
qed

theorem create_task_title_A_witness:
  "reachable init_db \<and> commit_error (calm 0) = None \<and>
   (\<exists>row. fst (create_task (calm 0) title_A init_db) = Inr (to_dict row, 201) \<and>
      0 < task_id row \<and> description row = JStr [] \<and> status row = JStr ''pending'' \<and>
      created_at row = at_time 0 0 \<and> updated_at row = at_time 0 1 \<and>
      to_second (created_at row) = to_second (updated_at row) \<and>
      dt_le (created_at row) (updated_at row))"
  using create_task_title_A [OF reachable.start, of title_A "calm 0"]
  by (auto simp: reachable.start)

text \<open>
  Claim C5 as stated fails when the second changes between the two readings of the clock:
  the task is created with \<open>created_at\<close> 12:00:00.999999 and \<open>updated_at\<close> 12:00:01,
  which differ to the second.
\<close>

theorem create_task_second_boundary_counterexample:
  "fst (create_task on_the_second title_A init_db)
     = Inr (JObj [(''id'', JNum 1), (''title'', JStr ''A''), (''description'', JStr []),
                  (''status'', JStr ''pending''),
                  (''created_at'', JStr ''2024-05-17T12:00:00.999999''),
                  (''updated_at'', JStr ''2024-05-17T12:00:01'')], 201) \<and>
   table (snd (create_task on_the_second title_A init_db))
     = [row_A\<lparr>created_at := at_time 0 999999, updated_at := at_time 1 0\<rparr>] \<and>
   to_second (at_time 0 999999) \<noteq> to_second (at_time 1 0) \<and>
   dt_le (at_time 0 999999) (at_time 1 0)"
proof -
  have env: "commit_error on_the_second = None" "utcnow on_the_second 0 = at_time 0 999999"
    "utcnow on_the_second (Suc 0) = at_time 1 0"
    by (simp_all add: on_the_second_def)
  have made: "create_task on_the_second title_A init_db =
      (Inr (to_dict (row_A\<lparr>created_at := at_time 0 999999, updated_at := at_time 1 0\<rparr>), 201),
       \<lparr>table = [row_A\<lparr>created_at := at_time 0 999999, updated_at := at_time 1 0\<rparr>], seq = 2,
         session = Persistent (row_A\<lparr>created_at := at_time 0 999999, updated_at := at_time 1 0\<rparr>)\<rparr>)"
    by (simp add: create_task_object [where ti = "JStr ''A''" and kv = "[(''title'', JStr ''A'')]"]
        Let_def env init_db_def row_A_def)
  have iso: "isoformat (at_time 0 999999) = ''2024-05-17T12:00:00.999999''"
    "isoformat (at_time (Suc 0) 0) = ''2024-05-17T12:00:01''"
    by (simp_all add: isoformat_def zfill_def at_time_def)
  show ?thesis
    by (simp add: made to_dict_def iso) (simp add: row_A_def)
qed





text \<open>
  Claim C8: \<open>GET /health\<close> answers 200 with the status \<open>healthy\<close> and a timestamp
  exactly when the probe query succeeds, answers 503 with the status \<open>unhealthy\<close> and the
  error text when the probe raises, and never lets an exception leave the handler.
\<close>

theorem health_check_follows_probe:
  "(query_error e = None \<longrightarrow>
      health_check e d =
        (Inr (JObj [(''status'', JStr ''healthy''),
                    (''timestamp'', JStr (isoformat (utcnow e 0)))], 200), d)) \<and>
   (\<forall>m. query_error e = Some m \<longrightarrow>
      health_check e d =
        (Inr (JObj [(''status'', JStr ''unhealthy''), (''error'', JStr m)], 503), d)) \<and>
   (status_of (fst (health_check e d)) = 200) = (query_error e = None) \<and>
   (status_of (fst (health_check e d)) = 503) = (query_error e \<noteq> None) \<and>
   (\<exists>resp. fst (health_check e d) = Inr resp)"
  by (cases "query_error e") (simp_all add: health_check_def)

theorem health_check_follows_probe_witness:
  "health_check (calm 30) db_A =
     (Inr (JObj [(''status'', JStr ''healthy''),
                 (''timestamp'', JStr ''2024-05-17T12:00:30'')], 200), db_A) \<and>
   health_check query_down db_A =
     (Inr (JObj [(''status'', JStr ''unhealthy''),
                 (''error'', JStr ''connection refused'')], 503), db_A)"
  using health_check_follows_probe [of "calm 30" db_A]
    health_check_follows_probe [of query_down db_A]
  by (simp add: query_down_def at_time_def isoformat_def zfill_def)

text \<open>
  Claim C9, as amended: on an existing task, with the lookup working, a PUT whose request
  has no JSON body (\<open>None\<close>), or a JSON boolean or number, answers 500, because the
  membership test raises \<open>TypeError\<close> and the handler turns it into its storage-error
  response. A JSON string or array answers 500 only when one of the names \<open>title\<close>,
  \<open>description\<close>, \<open>status\<close> occurs in it (as a substring, as an element), since the
  subscript then raises; when none occurs the request is a no-op answered with 200 if the
  commit works. The table is unchanged in every case, and no such body is answered with
  400.
\<close>

theorem update_task_body_not_object:
  assumes "query_error e = None" and "find_task i d = Some t"
    and "get_json req = Inr data" and "\<forall>kv. data \<noteq> JObj kv"
  shows "status_of (fst (update_task e req i d)) =
           (if py_in ''title'' data = Inr False \<and> py_in ''description'' data = Inr False \<and>
               py_in ''status'' data = Inr False \<and> commit_error e = None
            then 200 else 500) \<and>
         table (snd (update_task e req i d)) = table d \<and>
         (data = JNull \<or> (\<exists>b. data = JBool b) \<or> (\<exists>n. data = JNum n) \<longrightarrow>
            status_of (fst (update_task e req i d)) = 500)"
proof (cases "py_in ''title'' data = Inr False \<and> py_in ''description'' data = Inr False \<and>
               py_in ''status'' data = Inr False")
  case True
  with assms have "update_task e req i d =
     (case commit_error e of
        Some m \<Rightarrow> (Inr (error_body m, 500), d\<lparr>session := Empty\<rparr>)
      | None \<Rightarrow> (Inr (to_dict t, 200), d\<lparr>session := Persistent t\<rparr>))"
    by (intro update_task_other_quiet) auto
  with True show ?thesis by (auto split: option.splits)
next
  case False
  with assms obtain m where
    "update_task e req i d = (Inr (error_body m, 500), d\<lparr>session := Empty\<rparr>)"
    using update_task_other_raises by blast
  with False show ?thesis by auto
qed

theorem update_task_body_not_object_witness:
  "find_task 1 db_A = Some row_A \<and>
   status_of (fst (update_task (calm 30) (with_body JNull) 1 db_A)) = 500 \<and>
   status_of (fst (update_task (calm 30) (with_body (JNum 5)) 1 db_A)) = 500 \<and>
   status_of (fst (update_task (calm 30) (with_body (JStr ''my title'')) 1 db_A)) = 500 \<and>
   status_of (fst (update_task (calm 30) (with_body (JStr ''hello'')) 1 db_A)) = 200 \<and>
   table (snd (update_task (calm 30) (with_body JNull) 1 db_A)) = table db_A"
  using update_task_body_not_object [of "calm 30" 1 db_A row_A "with_body JNull" JNull]
    update_task_body_not_object [of "calm 30" 1 db_A row_A "with_body (JNum 5)" "JNum 5"]
    update_task_body_not_object
      [of "calm 30" 1 db_A row_A "with_body (JStr ''my title'')" "JStr ''my title''"]
    update_task_body_not_object
      [of "calm 30" 1 db_A row_A "with_body (JStr ''hello'')" "JStr ''hello''"]
  by simp

text \<open>
  Claim C9 as stated fails for a JSON body that is not an object but in which none of the
  three names occurs: the array \<open>[]\<close> and the string \<open>"hello"\<close> are answered with 200.
\<close>

theorem update_task_array_body_counterexample:
  "fst (update_task (calm 30) (with_body (JArr [])) 1 db_A) = Inr (to_dict row_A, 200) \<and>
   fst (update_task (calm 30) (with_body (JStr ''hello'')) 1 db_A) = Inr (to_dict row_A, 200)"
  by (simp add: update_task_other_quiet [where t = row_A and data = "JArr []"]
      update_task_other_quiet [where t = row_A and data = "JStr ''hello''"])

text \<open>
  Claim C10: \<open>create_task\<close> reads the keys \<open>title\<close>, \<open>description\<close> and \<open>status\<close>
  of the body and nothing else. Two object bodies that agree on these three keys get the
  same response and leave the same database, whatever else they carry (an \<open>id\<close>, a
  \<open>created_at\<close>, an \<open>updated_at\<close>); and whenever a task is created its id is the next
  value of the sequence of the store.
\<close>

theorem create_task_reads_three_keys:
  assumes "get_json req = Inr (JObj kv)" and "get_json req' = Inr (JObj kv')"
    and "map_of kv ''title'' = map_of kv' ''title''"
    and "map_of kv ''description'' = map_of kv' ''description''"
    and "map_of kv ''status'' = map_of kv' ''status''"
  shows "create_task e req d = create_task e req' d \<and>
         (status_of (fst (create_task e req d)) = 201 \<longrightarrow>
            (\<exists>row. fst (create_task e req d) = Inr (to_dict row, 201) \<and>
                   task_id row = seq d \<and>
                   created_at row = utcnow e 0 \<and> updated_at row = utcnow e 1 \<and>
                   table (snd (create_task e req d)) = table d @ [row] \<and>
                   seq (snd (create_task e req d)) = seq d + 1))"
proof (cases "map_of kv ''title''")
  case None
  with assms have "create_task e req d = (Inr (error_body ''Title is required'', 400), d)"
    and "create_task e req' d = (Inr (error_body ''Title is required'', 400), d)"
    by (auto intro!: create_task_rejected)
  then show ?thesis by simp
next
  case (Some ti)
  with assms have k': "map_of kv' ''title'' = Some ti" by simp
  note l = create_task_object [OF assms(1) Some, of e d]
  note r = create_task_object [OF assms(2) k', of e d]
  have same: "create_task e req d = create_task e req' d"
    unfolding l r using assms(3-5) by (cases "commit_error e") simp_all
  have made: "status_of (fst (create_task e req d)) = 201 \<longrightarrow>
            (\<exists>row. fst (create_task e req d) = Inr (to_dict row, 201) \<and>
                   task_id row = seq d \<and>
                   created_at row = utcnow e 0 \<and> updated_at row = utcnow e 1 \<and>
                   table (snd (create_task e req d)) = table d @ [row] \<and>
                   seq (snd (create_task e req d)) = seq d + 1)"
    unfolding l by (cases "commit_error e") (auto simp: Let_def)
  from same made show ?thesis by blast
qed

theorem create_task_reads_three_keys_witness:
  "map_of [(''id'', JNum 99), (''title'', JStr ''A''), (''created_at'', JStr ''1999-01-01T00:00:00'')]
      ''title'' = map_of [(''title'', JStr ''A'')] ''title'' \<and>
   create_task (calm 30)
     (with_body (JObj [(''id'', JNum 99), (''title'', JStr ''A''),
                       (''created_at'', JStr ''1999-01-01T00:00:00'')])) db_A
     = create_task (calm 30) title_A db_A \<and>
   (\<exists>row. fst (create_task (calm 30)
       (with_body (JObj [(''id'', JNum 99), (''title'', JStr ''A''),
                         (''created_at'', JStr ''1999-01-01T00:00:00'')])) db_A)
         = Inr (to_dict row, 201) \<and> task_id row = 2 \<and> created_at row = at_time 30 0)"
proof -
  let ?kv = "[(''id'', JNum 99), (''title'', JStr ''A''),
              (''created_at'', JStr ''1999-01-01T00:00:00'')]"
  let ?L = "create_task (calm 30) (with_body (JObj ?kv)) db_A"
  have ok: "status_of (fst ?L) = 201"
    by (simp add: create_task_object [where kv = ?kv and ti = "JStr ''A''"] Let_def)
  have both: "?L = create_task (calm 30) title_A db_A \<and>
      (status_of (fst ?L) = 201 \<longrightarrow>
         (\<exists>row. fst ?L = Inr (to_dict row, 201) \<and> task_id row = seq db_A \<and>
                created_at row = utcnow (calm 30) 0 \<and> updated_at row = utcnow (calm 30) 1 \<and>
                table (snd ?L) = table db_A @ [row] \<and> seq (snd ?L) = seq db_A + 1))"
    by (rule create_task_reads_three_keys [where kv = ?kv and kv' = "[(''title'', JStr ''A'')]"])
      simp_all
  with ok obtain row where row: "fst ?L = Inr (to_dict row, 201)" "task_id row = seq db_A"
    "created_at row = utcnow (calm 30) 0"
    by blast
  have "seq db_A = 2" by (simp add: db_A_def)
  with row have "\<exists>row. fst ?L = Inr (to_dict row, 201) \<and> task_id row = 2 \<and>
      created_at row = at_time 30 0"
    by (intro exI [of _ row]) simp
  moreover have "map_of ?kv ''title'' = map_of [(''title'', JStr ''A'')] ''title''" by simp
  ultimately show ?thesis using both by blast
qed

end
